theory Spec2Isabelle
  imports Complex_Main
begin

section \<open>Transmission curves from tabulated cross-sections (pleiades/simData.py)\<close>

text \<open>
  The development embeds the two functions \<^verbatim>\<open>parse_xs_file\<close> and
  \<^verbatim>\<open>create_transmission\<close> and the class \<^verbatim>\<open>Isotope\<close> of
  \<^verbatim>\<open>src/pleiades/simData.py\<close>.  Exceptions are values of a sum type, the loop
  of the parser is a recursive function over the lines of the file, and the mutable
  \<^verbatim>\<open>Isotope\<close> object is a record that \<^verbatim>\<open>load_xs_data\<close> returns updated.
\<close>

subsection \<open>Floating-point values\<close>

text \<open>
  A Python \<^verbatim>\<open>float\<close> (and a NumPy \<^verbatim>\<open>float64\<close>) is a finite number, one of
  the two infinities, or not-a-number.  Finite values are idealised as reals: rounding,
  overflow of a finite result and the sign of zero are not modelled.  What is modelled is
  the part of IEEE 754 arithmetic that decides the control flow and the shape of the
  results of the program: the special values and the division by zero.
\<close>

datatype pyfloat = Fin real | PInf | NInf | NaN

fun fneg :: "pyfloat \<Rightarrow> pyfloat" where
  "fneg (Fin r) = Fin (- r)"
| "fneg PInf = NInf"
| "fneg NInf = PInf"
| "fneg NaN = NaN"

fun fadd :: "pyfloat \<Rightarrow> pyfloat \<Rightarrow> pyfloat" where
  "fadd NaN b = NaN"
| "fadd a NaN = NaN"
| "fadd (Fin a) (Fin b) = Fin (a + b)"
| "fadd (Fin a) PInf = PInf"
| "fadd (Fin a) NInf = NInf"
| "fadd PInf (Fin b) = PInf"
| "fadd NInf (Fin b) = NInf"
| "fadd PInf PInf = PInf"
| "fadd NInf NInf = NInf"
| "fadd PInf NInf = NaN"
| "fadd NInf PInf = NaN"

definition fsub :: "pyfloat \<Rightarrow> pyfloat \<Rightarrow> pyfloat" where
  "fsub a b = fadd a (fneg b)"

text \<open>The sign of an infinite product or quotient: the infinity of the sign of \<open>r\<close>.\<close>

definition inf_of_sign :: "real \<Rightarrow> pyfloat" where
  "inf_of_sign r = (if r = 0 then NaN else if 0 < r then PInf else NInf)"

fun fmul :: "pyfloat \<Rightarrow> pyfloat \<Rightarrow> pyfloat" where
  "fmul NaN b = NaN"
| "fmul a NaN = NaN"
| "fmul (Fin a) (Fin b) = Fin (a * b)"
| "fmul (Fin a) PInf = inf_of_sign a"
| "fmul (Fin a) NInf = inf_of_sign (- a)"
| "fmul PInf (Fin b) = inf_of_sign b"
| "fmul NInf (Fin b) = inf_of_sign (- b)"
| "fmul PInf PInf = PInf"
| "fmul NInf NInf = PInf"
| "fmul PInf NInf = NInf"
| "fmul NInf PInf = NInf"

text \<open>
  IEEE division, as NumPy performs it on arrays: a division by zero does not raise, it
  yields an infinity, or not-a-number for \<open>0 / 0\<close>.
\<close>

fun fdiv :: "pyfloat \<Rightarrow> pyfloat \<Rightarrow> pyfloat" where
  "fdiv NaN b = NaN"
| "fdiv a NaN = NaN"
| "fdiv (Fin a) (Fin b) = (if b = 0 then inf_of_sign a else Fin (a / b))"
| "fdiv (Fin a) PInf = Fin 0"
| "fdiv (Fin a) NInf = Fin 0"
| "fdiv PInf (Fin b) = (if 0 \<le> b then PInf else NInf)"
| "fdiv NInf (Fin b) = (if 0 \<le> b then NInf else PInf)"
| "fdiv PInf PInf = NaN"
| "fdiv NInf NInf = NaN"
| "fdiv PInf NInf = NaN"
| "fdiv NInf PInf = NaN"

fun fexp :: "pyfloat \<Rightarrow> pyfloat" where
  "fexp (Fin r) = Fin (exp r)"
| "fexp PInf = PInf"
| "fexp NInf = Fin 0"
| "fexp NaN = NaN"

subsection \<open>Exceptions\<close>

text \<open>
  \<open>ValueError msg\<close> is a \<^verbatim>\<open>ValueError\<close> that the source raises itself, with its
  message.  The interpreter and the libraries raise \<^verbatim>\<open>ValueError\<close> as well, with
  messages of their own: \<open>UnpackValueError n\<close> when a tuple assignment to two names
  finds \<open>n\<close> values, \<open>FloatValueError s\<close> when \<^verbatim>\<open>float(s)\<close> cannot read \<open>s\<close>,
  and \<open>InterpValueError\<close> when \<^verbatim>\<open>interp1d\<close> rejects its arrays.
\<close>

datatype error =
    ValueError string
  | UnpackValueError nat
  | FloatValueError string
  | InterpValueError
  | ZeroDivisionError
  | FileNotFoundError string

text \<open>
  The division operator of Python on two floats: a zero divisor raises, any other
  division is the IEEE one.
\<close>

definition py_truediv :: "pyfloat \<Rightarrow> pyfloat \<Rightarrow> error + pyfloat" where
  "py_truediv a b = (if b = Fin 0 then Inl ZeroDivisionError else Inr (fdiv a b))"

subsection \<open>Strings\<close>

text \<open>\<^verbatim>\<open>s.startswith(p)\<close>\<close>

fun startswith :: "string \<Rightarrow> string \<Rightarrow> bool" where
  "startswith s [] = True"
| "startswith [] (p # ps) = False"
| "startswith (c # cs) (p # ps) = (c = p \<and> startswith cs ps)"

text \<open>\<^verbatim>\<open>sub in s\<close>: \<open>sub\<close> occurs in \<open>s\<close> as a contiguous substring.\<close>

fun str_in :: "string \<Rightarrow> string \<Rightarrow> bool" where
  "str_in sub [] = (sub = [])"
| "str_in sub (c # cs) = (startswith (c # cs) sub \<or> str_in sub cs)"

text \<open>
  The whitespace characters of \<^verbatim>\<open>str.split()\<close> in the ASCII range: tab, line feed,
  vertical tab, form feed, carriage return, the four separators 0x1C to 0x1F and the space.
\<close>

definition is_space :: "char \<Rightarrow> bool" where
  "is_space c = (c \<in> set [CHR 0x09, CHR 0x0A, CHR 0x0B, CHR 0x0C, CHR 0x0D,
                           CHR 0x1C, CHR 0x1D, CHR 0x1E, CHR 0x1F, CHR 0x20])"

text \<open>
  \<^verbatim>\<open>s.split()\<close>: the maximal runs of non-whitespace characters of \<open>s\<close>, in order.
  The first argument is the run read so far.
\<close>

fun split_run :: "string \<Rightarrow> string \<Rightarrow> string list" where
  "split_run cur [] = (if cur = [] then [] else [cur])"
| "split_run cur (c # cs) =
     (if is_space c then (if cur = [] then split_run [] cs else cur # split_run [] cs)
      else split_run (cur @ [c]) cs)"

definition str_split :: "string \<Rightarrow> string list" where
  "str_split s = split_run [] s"

subsection \<open>The conversion \<^verbatim>\<open>float(s)\<close> of a string\<close>

text \<open>The position of a character in a string, counted from \<open>i\<close>.\<close>

fun position :: "char \<Rightarrow> string \<Rightarrow> nat \<Rightarrow> nat option" where
  "position c [] i = None"
| "position c (d # ds) i = (if c = d then Some i else position c ds (Suc i))"

text \<open>The value of a decimal digit: its position among the ten digits.\<close>

definition digit_val :: "char \<Rightarrow> nat option" where
  "digit_val c = position c ''0123456789'' 0"

definition is_digit :: "char \<Rightarrow> bool" where
  "is_digit c = (digit_val c \<noteq> None)"

text \<open>
  An underscore is accepted only between two digits; the check runs over the whole
  string with the previous character at hand (initially the null character).
\<close>

fun underscores_ok :: "char \<Rightarrow> string \<Rightarrow> bool" where
  "underscores_ok prev [] = (prev \<noteq> CHR ''_'')"
| "underscores_ok prev (c # cs) =
     (if c = CHR ''_'' then is_digit prev \<and> underscores_ok c cs
      else if prev = CHR ''_'' then is_digit c \<and> underscores_ok c cs
      else underscores_ok c cs)"

text \<open>The longest prefix of digits and the rest; the value of a digit string.\<close>

fun span_digits :: "string \<Rightarrow> string \<times> string" where
  "span_digits [] = ([], [])"
| "span_digits (c # cs) =
     (if is_digit c then (case span_digits cs of (ds, rest) \<Rightarrow> (c # ds, rest))
      else ([], c # cs))"

fun digits_val :: "nat \<Rightarrow> string \<Rightarrow> nat" where
  "digits_val acc [] = acc"
| "digits_val acc (c # cs) = digits_val (10 * acc + (case digit_val c of Some d \<Rightarrow> d | None \<Rightarrow> 0)) cs"

text \<open>An optional sign: \<open>True\<close> for a minus.\<close>

fun take_sign :: "string \<Rightarrow> bool \<times> string" where
  "take_sign [] = (False, [])"
| "take_sign (c # cs) =
     (if c = CHR ''-'' then (True, cs) else if c = CHR ''+'' then (False, cs)
      else (False, c # cs))"

text \<open>\<open>s\<close> equals the word \<open>lo\<close> up to the case of its letters (\<open>up\<close> is \<open>lo\<close> in capitals).\<close>

definition ci_equal :: "string \<Rightarrow> string \<Rightarrow> string \<Rightarrow> bool" where
  "ci_equal s lo up = list_all2 (\<lambda>c (l, u). c = l \<or> c = u) s (zip lo up)"

text \<open>
  The exponent part: empty, or \<open>e\<close> or \<open>E\<close>, an optional sign and at least one digit.
\<close>

definition parse_exponent :: "string \<Rightarrow> int option" where
  "parse_exponent s =
     (case s of
        [] \<Rightarrow> Some 0
      | c # cs \<Rightarrow>
          if c = CHR ''e'' \<or> c = CHR ''E'' then
            (case take_sign cs of (neg, ds) \<Rightarrow>
               (case span_digits ds of (es, rest) \<Rightarrow>
                  if es = [] \<or> rest \<noteq> [] then None
                  else Some (if neg then - int (digits_val 0 es) else int (digits_val 0 es))))
          else None)"

text \<open>
  The decimal number after the sign: digits, an optional point and more digits, at
  least one digit in all, and the exponent part.
\<close>

definition parse_decimal :: "string \<Rightarrow> real option" where
  "parse_decimal s =
     (case span_digits s of (ip, r1) \<Rightarrow>
        (case (case r1 of
                 [] \<Rightarrow> ([], [])
               | c # cs \<Rightarrow> if c = CHR ''.'' then span_digits cs else ([], c # cs)) of
           (fp, r2) \<Rightarrow>
             if ip = [] \<and> fp = [] then None
             else (case parse_exponent r2 of
                     None \<Rightarrow> None
                   | Some e \<Rightarrow>
                       Some ((real (digits_val 0 ip) + real (digits_val 0 fp) / 10 ^ length fp)
                             * (if 0 \<le> e then 10 ^ nat e else 1 / 10 ^ nat (- e))))))"

text \<open>
  \<^verbatim>\<open>float(s)\<close> for a string without surrounding whitespace (the tokens of
  \<^verbatim>\<open>split()\<close> have none): the underscores are checked and removed, then the sign is
  read, then one of the words \<^verbatim>\<open>inf\<close>, \<^verbatim>\<open>infinity\<close>, \<^verbatim>\<open>nan\<close> in any case, or a
  decimal number.  Anything else raises.
\<close>

definition py_float :: "string \<Rightarrow> error + pyfloat" where
  "py_float s =
     (if \<not> underscores_ok (CHR 0x00) s then Inl (FloatValueError s)
      else (case take_sign (filter (\<lambda>c. c \<noteq> CHR ''_'') s) of (neg, body) \<Rightarrow>
        if ci_equal body ''inf'' ''INF'' \<or> ci_equal body ''infinity'' ''INFINITY''
        then Inr (if neg then NInf else PInf)
        else if ci_equal body ''nan'' ''NAN'' then Inr NaN
        else (case parse_decimal body of
                None \<Rightarrow> Inl (FloatValueError s)
              | Some r \<Rightarrow> Inr (Fin (if neg then - r else r)))))"

subsection \<open>\<^verbatim>\<open>parse_xs_file\<close>\<close>

type_synonym series = "(pyfloat \<times> pyfloat) list"

text \<open>
  Lines 96 and 97, one data line: \<^verbatim>\<open>energy_eV, xs = line.split()\<close> raises unless
  there are exactly two tokens; \<^verbatim>\<open>float(energy_eV)\<close> is converted first, then
  \<^verbatim>\<open>float(xs)\<close>; the energy is multiplied by \<^verbatim>\<open>1E6\<close>.
\<close>

definition data_line :: "string \<Rightarrow> error + (pyfloat \<times> pyfloat)" where
  "data_line line =
     (case str_split line of
        [energy_eV, xs] \<Rightarrow>
          (case py_float energy_eV of
             Inl e \<Rightarrow> Inl e
           | Inr en \<Rightarrow>
               (case py_float xs of
                  Inl e \<Rightarrow> Inl e
                | Inr x \<Rightarrow> Inr (fmul en (Fin 1000000), x)))
      | toks \<Rightarrow> Inl (UnpackValueError (length toks)))"

text \<open>
  Lines 82 to 97, the loop over the lines of the file.  The state is the triple of the
  three variables \<^verbatim>\<open>xs_data\<close>, \<^verbatim>\<open>isotope_xs_found\<close> and \<^verbatim>\<open>capture_data\<close>;
  the result is the state when the loop is left, by the end of the file or by
  \<^verbatim>\<open>break\<close>, or the exception of a data line.
\<close>

fun scan_lines :: "string \<Rightarrow> string list \<Rightarrow> series \<times> bool \<times> bool
                     \<Rightarrow> error + (series \<times> bool \<times> bool)" where
  "scan_lines isotope_name [] st = Inr st"
| "scan_lines isotope_name (line # rest) (xs_data, isotope_xs_found, capture_data) =
     (let isotope_xs_found = (if str_in isotope_name line then True else isotope_xs_found) in
      if isotope_xs_found then
        if str_in ''#data...'' line then
          scan_lines isotope_name rest (xs_data, isotope_xs_found, True)
        else if str_in ''//'' line then
          Inr (xs_data, isotope_xs_found, False)
        else if capture_data \<and> \<not> startswith line ''#'' then
          (case data_line line of
             Inl e \<Rightarrow> Inl e
           | Inr p \<Rightarrow> scan_lines isotope_name rest (xs_data @ [p], isotope_xs_found, capture_data))
        else scan_lines isotope_name rest (xs_data, isotope_xs_found, capture_data)
      else scan_lines isotope_name rest (xs_data, isotope_xs_found, capture_data))"

text \<open>
  The file system maps a path to the lines that iterating over the opened file yields
  (each line with its line terminator, the last one possibly without); opening a path
  that is not there raises.
\<close>

type_synonym files = "string \<rightharpoonup> string list"

definition not_found_message :: "string \<Rightarrow> string \<Rightarrow> string" where
  "not_found_message isotope_name file_location =
     ''Cross-section data for '' @ isotope_name @ '' not found in '' @ file_location"

definition parse_xs_file :: "files \<Rightarrow> string \<Rightarrow> string \<Rightarrow> error + series" where
  "parse_xs_file fs file_location isotope_name =
     (case fs file_location of
        None \<Rightarrow> Inl (FileNotFoundError file_location)
      | Some f \<Rightarrow>
          (case scan_lines isotope_name f ([], False, False) of
             Inl e \<Rightarrow> Inl e
           | Inr (xs_data, isotope_xs_found, capture_data) \<Rightarrow>
               if \<not> isotope_xs_found
               then Inl (ValueError (not_found_message isotope_name file_location))
               else Inr xs_data))"

subsection \<open>The class \<^verbatim>\<open>Isotope\<close>\<close>

record isotope =
  name :: string
  atomic_mass :: pyfloat
  thickness :: pyfloat
  thickness_unit :: string
  abundance :: pyfloat
  xs_file_location :: string
  density :: pyfloat
  density_unit :: string
  xs_data :: series

text \<open>The constructor, and the constructor called with its default arguments.\<close>

definition Isotope_init :: "string \<Rightarrow> pyfloat \<Rightarrow> pyfloat \<Rightarrow> string \<Rightarrow> pyfloat \<Rightarrow> string
                             \<Rightarrow> pyfloat \<Rightarrow> string \<Rightarrow> isotope" where
  "Isotope_init nm am th thu ab loc de deu =
     \<lparr>name = nm, atomic_mass = am, thickness = th, thickness_unit = thu, abundance = ab,
      xs_file_location = loc, density = de, density_unit = deu, xs_data = []\<rparr>"

definition Isotope_default :: isotope where
  "Isotope_default =
     Isotope_init ''Unknown'' (Fin 0) (Fin 0) ''atoms/cm2'' (Fin 0) ''Unknown'' (Fin 0) ''g/cm3''"

definition no_data_message :: "string \<Rightarrow> string \<Rightarrow> string" where
  "no_data_message nm loc = ''No data loaded for '' @ nm @ '' from '' @ loc"

text \<open>
  \<^verbatim>\<open>load_xs_data\<close> mutates the object, also when it raises afterwards: the result is
  the exception, if any, and the object as the call leaves it.
\<close>

definition load_xs_data :: "files \<Rightarrow> isotope \<Rightarrow> error option \<times> isotope" where
  "load_xs_data fs self =
     (case parse_xs_file fs (xs_file_location self) (name self) of
        Inl e \<Rightarrow> (Some e, self)
      | Inr d \<Rightarrow>
          (let self' = self\<lparr>xs_data := d\<rparr> in
           if xs_data self' = []
           then (Some (ValueError (no_data_message (name self') (xs_file_location self'))), self')
           else (None, self')))"

subsection \<open>\<^verbatim>\<open>scipy.interpolate.interp1d\<close>, linear, extrapolating\<close>

text \<open>
  The source calls the library:
  \<^verbatim>\<open>interp1d(energies_eV, cross_sections, kind='linear', fill_value="extrapolate")\<close>.
  The library is not part of the repository; the definitions below follow what it does
  for these arguments.  The constructor sorts the abscissae with a stable sort (their
  order: every number below not-a-number) and rejects arrays of different lengths and
  arrays with no entry.  The call (\<^verbatim>\<open>_call_linear\<close>) finds the insertion index of the
  new abscissa with \<^verbatim>\<open>searchsorted\<close>, clips it with \<^verbatim>\<open>clip(1, len(x) - 1)\<close>, takes
  the entries at the index and before it, and returns
  \<^verbatim>\<open>slope * (x_new - x_lo) + y_lo\<close> with
  \<^verbatim>\<open>slope = (y_hi - y_lo) / (x_hi - x_lo)\<close>, in array arithmetic, where nothing
  raises.  With \<^verbatim>\<open>fill_value="extrapolate"\<close> no bound is checked.

  With one entry \<^verbatim>\<open>clip(1, 0)\<close> gives the index 0 (the upper bound wins), the index
  before it is \<^verbatim>\<open>-1\<close>, which reads the last entry, that is the same one, and the slope
  is \<open>0 / 0\<close>.

  The arithmetic of \<open>call_linear\<close> is exact on finite values, as everywhere here.  The
  library rounds each operation, and \<^verbatim>\<open>slope * (x_new - x_lo) + y_lo\<close> can cancel:
  a value of the interpolant is the library's only where the rounding cannot matter, as
  at the lower end of a segment, where the product is zero.
\<close>

fun np_lt :: "pyfloat \<Rightarrow> pyfloat \<Rightarrow> bool" where
  "np_lt NaN b = False"
| "np_lt (Fin a) (Fin b) = (a < b)"
| "np_lt (Fin a) PInf = True"
| "np_lt (Fin a) NInf = False"
| "np_lt (Fin a) NaN = True"
| "np_lt PInf NaN = True"
| "np_lt PInf b = False"
| "np_lt NInf NInf = False"
| "np_lt NInf b = True"

fun insort_pair :: "pyfloat \<times> pyfloat \<Rightarrow> series \<Rightarrow> series" where
  "insort_pair p [] = [p]"
| "insort_pair p (q # qs) =
     (if np_lt (fst q) (fst p) then q # insort_pair p qs else p # q # qs)"

definition argsort_pairs :: "series \<Rightarrow> series" where
  "argsort_pairs ps = foldr insort_pair ps []"

definition searchsorted :: "pyfloat list \<Rightarrow> pyfloat \<Rightarrow> nat" where
  "searchsorted x v = length (takeWhile (\<lambda>a. np_lt a v) x)"

definition call_linear :: "pyfloat list \<Rightarrow> pyfloat list \<Rightarrow> pyfloat \<Rightarrow> pyfloat" where
  "call_linear x y x_new =
     (let hi = min (length x - 1) (max 1 (searchsorted x x_new));
          lo = (if hi = 0 then length x - 1 else hi - 1);
          x_lo = x ! lo; x_hi = x ! hi;
          y_lo = y ! lo; y_hi = y ! hi;
          slope = fdiv (fsub y_hi y_lo) (fsub x_hi x_lo)
      in fadd (fmul slope (fsub x_new x_lo)) y_lo)"

definition interp1d :: "pyfloat list \<Rightarrow> pyfloat list \<Rightarrow> error + (pyfloat \<Rightarrow> pyfloat)" where
  "interp1d x y =
     (if length x \<noteq> length y then Inl InterpValueError
      else if length x < 1 then Inl InterpValueError
      else (let s = argsort_pairs (zip x y) in Inr (call_linear (map fst s) (map snd s))))"

subsection \<open>\<^verbatim>\<open>create_transmission\<close>\<close>

definition AVOGADRO :: pyfloat where
  "AVOGADRO = Fin 602214076000000000000000"

definition CM2_TO_BARN :: pyfloat where
  "CM2_TO_BARN = Fin 1000000000000000000000000"

definition thickness_message :: string where
  "thickness_message = ''Unsupported thickness unit: {thickness_unit} for {isotope_name}''"

definition density_message :: string where
  "density_message = ''Unsupported density unit:{density_unit} for {isotope_name}''"

text \<open>
  Line 46, \<^verbatim>\<open>energies_eV, cross_sections = zip(*xs_data)\<close>: from a non-empty list of
  pairs \<^verbatim>\<open>zip\<close> yields the tuple of the energies and the tuple of the cross-sections;
  from the empty list it yields nothing, and the assignment to two names raises.
\<close>

definition unzip_xs :: "series \<Rightarrow> error + (pyfloat list \<times> pyfloat list)" where
  "unzip_xs d = (if d = [] then Inl (UnpackValueError 0) else Inr (map fst d, map snd d))"

text \<open>Lines 50 to 59, the loop over the energy grid, with the list it appends to.\<close>

fun transmission_loop :: "(pyfloat \<Rightarrow> pyfloat) \<Rightarrow> pyfloat \<Rightarrow> pyfloat list \<Rightarrow> series \<Rightarrow> series" where
  "transmission_loop interpolate_xs_data areal_density [] transmission = transmission"
| "transmission_loop interpolate_xs_data areal_density (energy # rest) transmission =
     (let xs = interpolate_xs_data energy in
      transmission_loop interpolate_xs_data areal_density rest
        (transmission @ [(energy, fexp (fmul (fneg xs) areal_density))]))"

text \<open>
  Lines 35 to 39: the thickness in centimetres, or the exception for another unit.
  Dividing by \<^verbatim>\<open>10.0\<close> never raises.
\<close>

definition thickness_cm :: "isotope \<Rightarrow> error + pyfloat" where
  "thickness_cm isotope =
     (if thickness_unit isotope \<noteq> ''cm'' then
        (if thickness_unit isotope = ''mm'' then Inr (fdiv (thickness isotope) (Fin 10))
         else Inl (ValueError thickness_message))
      else Inr (thickness isotope))"

text \<open>
  Line 43:
  \<^verbatim>\<open>areal_density = thickness * density * AVOGADRO / atomic_mass / CM2_TO_BARN\<close>,
  evaluated from left to right.
\<close>

definition areal_density_of :: "pyfloat \<Rightarrow> pyfloat \<Rightarrow> pyfloat \<Rightarrow> error + pyfloat" where
  "areal_density_of th de am =
     (case py_truediv (fmul (fmul th de) AVOGADRO) am of
        Inl e \<Rightarrow> Inl e
      | Inr q \<Rightarrow> py_truediv q CM2_TO_BARN)"

definition create_transmission :: "pyfloat list \<Rightarrow> isotope \<Rightarrow> error + series" where
  "create_transmission energy_grid isotope =
     (case thickness_cm isotope of
        Inl e \<Rightarrow> Inl e
      | Inr th \<Rightarrow>
          if density_unit isotope \<noteq> ''g/cm3'' then Inl (ValueError density_message)
          else
            (case areal_density_of th (density isotope) (atomic_mass isotope) of
               Inl e \<Rightarrow> Inl e
             | Inr areal_density \<Rightarrow>
                 (case unzip_xs (xs_data isotope) of
                    Inl e \<Rightarrow> Inl e
                  | Inr (energies_eV, cross_sections) \<Rightarrow>
                      (case interp1d energies_eV cross_sections of
                         Inl e \<Rightarrow> Inl e
                       | Inr interpolate_xs_data \<Rightarrow>
                           Inr (transmission_loop interpolate_xs_data areal_density
                                  energy_grid [])))))"

section \<open>Properties\<close>

subsection \<open>The string tests are the substring and prefix relations\<close>

lemma startswith_iff: "startswith s p \<longleftrightarrow> (\<exists>r. s = p @ r)"
  by (induction s p rule: startswith.induct) auto

lemma str_in_iff: "str_in sub s \<longleftrightarrow> (\<exists>p r. s = p @ sub @ r)"
proof (induction s)
  case Nil
  then show ?case by auto
next
  case (Cons c cs)
  show ?case
  proof
    assume "str_in sub (c # cs)"
    then consider "startswith (c # cs) sub" | "str_in sub cs" by auto
    then show "\<exists>p r. c # cs = p @ sub @ r"
    proof cases
      case 1
      then obtain r where "c # cs = sub @ r" by (auto simp: startswith_iff)
      then have "c # cs = [] @ sub @ r" by simp
      then show ?thesis by blast
    next
      case 2
      then obtain p r where "cs = p @ sub @ r" using Cons.IH by blast
      then have "c # cs = (c # p) @ sub @ r" by simp
      then show ?thesis by blast
    qed
  next
    assume "\<exists>p r. c # cs = p @ sub @ r"
    then obtain p r where pr: "c # cs = p @ sub @ r" by blast
    show "str_in sub (c # cs)"
    proof (cases p)
      case Nil
      then have "startswith (c # cs) sub" using pr by (auto simp: startswith_iff)
      then show ?thesis by simp
    next
      case (Cons a p')
      then have "cs = p' @ sub @ r" using pr by simp
      then have "str_in sub cs" using Cons.IH by blast
      then show ?thesis by simp
    qed
  qed
qed

subsection \<open>The parser\<close>

text \<open>
  While no line has contained the isotope name, the loop changes nothing: it passes
  over any lines that do not contain the name, whatever else they contain.
\<close>

lemma scan_lines_searching:
  "\<forall>line \<in> set f. \<not> str_in isotope_name line \<Longrightarrow>
   scan_lines isotope_name (f @ rest) (acc, False, capture_data)
     = scan_lines isotope_name rest (acc, False, capture_data)"
  by (induction f) simp_all

lemmas float_defs =
  py_float_def parse_decimal_def parse_exponent_def is_digit_def digit_val_def ci_equal_def

lemma py_float_1_0: "py_float ''1.0'' = Inr (Fin 1)"
  by (simp add: float_defs)

lemma py_float_2_0: "py_float ''2.0'' = Inr (Fin 2)"
  by (simp add: float_defs)

lemma py_float_2_5: "py_float ''2.5'' = Inr (Fin (5 / 2))"
  by (simp add: float_defs)

lemma py_float_3_0: "py_float ''3.0'' = Inr (Fin 3)"
  by (simp add: float_defs)

lemma data_line_1_0_2_5: "data_line ''1.0 2.5\<newline>'' = Inr (Fin 1000000, Fin (5 / 2))"
  by (simp add: data_line_def str_split_def is_space_def py_float_1_0 py_float_2_5)

lemma data_line_2_0_3_0: "data_line ''2.0 3.0\<newline>'' = Inr (Fin 2000000, Fin 3)"
  by (simp add: data_line_def str_split_def is_space_def py_float_2_0 py_float_3_0)

text \<open>
  C3.  The file of the five lines \<^verbatim>\<open>A\<close>, \<^verbatim>\<open>#data...\<close>, \<^verbatim>\<open>1.0 2.5\<close>,
  \<^verbatim>\<open>2.0 3.0\<close> and \<^verbatim>\<open>//\<close>, each with its line feed as iterating over the file
  yields it, parsed for the isotope \<^verbatim>\<open>A\<close>, gives the two pairs \<open>(1e6, 2.5)\<close> and
  \<open>(2e6, 3.0)\<close>, in the order of the file: the energies are multiplied by \<open>1e6\<close>.
\<close>

theorem parse_xs_file_example:
  "parse_xs_file
     [''xs.txt'' \<mapsto> [''A\<newline>'', ''#data...\<newline>'', ''1.0 2.5\<newline>'', ''2.0 3.0\<newline>'', ''//\<newline>'']]
     ''xs.txt'' ''A''
   = Inr [(Fin 1000000, Fin (5 / 2)), (Fin 2000000, Fin 3)]"
  by (simp add: parse_xs_file_def data_line_1_0_2_5 data_line_2_0_3_0)

text \<open>
  C5.  When the file is there and no line of it contains the isotope name,
  \<^verbatim>\<open>parse_xs_file\<close> raises the \<^verbatim>\<open>ValueError\<close> of line 102, whose message names the
  isotope and the file.
\<close>

theorem parse_xs_file_not_found:
  assumes "fs file_location = Some f"
    and "\<forall>line \<in> set f. \<not> str_in isotope_name line"
  shows "parse_xs_file fs file_location isotope_name
           = Inl (ValueError (not_found_message isotope_name file_location))"
proof -
  have "scan_lines isotope_name (f @ []) ([], False, False)
          = scan_lines isotope_name [] ([], False, False)"
    using assms(2) by (rule scan_lines_searching)
  then have "scan_lines isotope_name f ([], False, False) = Inr ([], False, False)"
    by simp
  then show ?thesis using assms(1) by (simp add: parse_xs_file_def)
qed

text \<open>C5 at a file that holds a block for \<^verbatim>\<open>A\<close> only, parsed for \<^verbatim>\<open>Z\<close>.\<close>

theorem parse_xs_file_not_found_witness:
  "parse_xs_file [''xs.txt'' \<mapsto> [''A\<newline>'', ''#data...\<newline>'', ''1.0 2.5\<newline>'', ''//\<newline>'']]
     ''xs.txt'' ''Z''
     = Inl (ValueError (not_found_message ''Z'' ''xs.txt''))
   \<and> not_found_message ''Z'' ''xs.txt'' = ''Cross-section data for Z not found in xs.txt''"
proof
  show "parse_xs_file [''xs.txt'' \<mapsto> [''A\<newline>'', ''#data...\<newline>'', ''1.0 2.5\<newline>'', ''//\<newline>'']]
     ''xs.txt'' ''Z''
     = Inl (ValueError (not_found_message ''Z'' ''xs.txt''))"
    by (rule parse_xs_file_not_found
          [where f = "[''A\<newline>'', ''#data...\<newline>'', ''1.0 2.5\<newline>'', ''//\<newline>'']"]) simp_all
  show "not_found_message ''Z'' ''xs.txt'' = ''Cross-section data for Z not found in xs.txt''"
    by (simp add: not_found_message_def)
qed

text \<open>
  C9.  The end-of-block line \<^verbatim>\<open>//\<close> counts only once the isotope name has been seen,
  and it is tested before the comment test.

  First part: while the name has not been seen, a line that contains \<^verbatim>\<open>//\<close> and
  not the name leaves the three variables as they are, and the loop goes on with the
  next line; when it is the last line, the loop ends with the name not found and the
  variables unchanged.

  Second part: once the name has been seen (in an earlier line, or in this very line), a
  line that contains \<^verbatim>\<open>//\<close> and not \<^verbatim>\<open>#data...\<close> leaves the loop at once, with
  \<^verbatim>\<open>capture_data\<close> false and the collected data as they are; nothing is asked of
  the first character of the line, so a line that starts with \<^verbatim>\<open>#\<close> ends the scan
  as well.

  Third part, both together on a whole file: a line with \<^verbatim>\<open>//\<close> among the lines
  before the first line with the name, then the line with the name, a line with
  \<^verbatim>\<open>#data...\<close>, one data row and a line with \<^verbatim>\<open>//\<close> (which may start with
  \<^verbatim>\<open>#\<close>).  The scan ends with exactly the pair of the data row, the name found and
  \<^verbatim>\<open>capture_data\<close> false: the first \<^verbatim>\<open>//\<close> has not stopped it, the second one
  has, and the lines behind it are not read.
\<close>

theorem sentinel_scope:
  "(str_in ''//'' line \<and> \<not> str_in isotope_name line \<longrightarrow>
      scan_lines isotope_name (line # rest) (acc, False, capture_data)
        = scan_lines isotope_name rest (acc, False, capture_data)
      \<and> scan_lines isotope_name [line] (acc, False, capture_data)
        = Inr (acc, False, capture_data))
   \<and> (str_in ''//'' line \<and> \<not> str_in ''#data...'' line
        \<and> (isotope_xs_found \<or> str_in isotope_name line) \<longrightarrow>
      scan_lines isotope_name (line # rest) (acc, isotope_xs_found, capture_data)
        = Inr (acc, True, False))
   \<and> ((\<forall>l \<in> set before. \<not> str_in isotope_name l)
        \<and> str_in ''//'' line \<and> \<not> str_in isotope_name line
        \<and> (\<forall>l \<in> set between. \<not> str_in isotope_name l)
        \<and> str_in isotope_name name_line
        \<and> \<not> str_in ''#data...'' name_line \<and> \<not> str_in ''//'' name_line
        \<and> str_in ''#data...'' marker_line
        \<and> \<not> str_in ''#data...'' row \<and> \<not> str_in ''//'' row \<and> \<not> startswith row ''#''
        \<and> data_line row = Inr p
        \<and> str_in ''//'' end_line \<and> \<not> str_in ''#data...'' end_line \<longrightarrow>
      scan_lines isotope_name
          (before @ line # between @ name_line # marker_line # row # end_line # rest)
          ([], False, False)
        = Inr ([p], True, False))"
proof (intro conjI impI)
  assume "str_in ''//'' line \<and> \<not> str_in isotope_name line"
  then show "scan_lines isotope_name (line # rest) (acc, False, capture_data)
        = scan_lines isotope_name rest (acc, False, capture_data)"
    by simp
next
  assume "str_in ''//'' line \<and> \<not> str_in isotope_name line"
  then show "scan_lines isotope_name [line] (acc, False, capture_data)
        = Inr (acc, False, capture_data)"
    by simp
next
  assume "str_in ''//'' line \<and> \<not> str_in ''#data...'' line
        \<and> (isotope_xs_found \<or> str_in isotope_name line)"
  then show "scan_lines isotope_name (line # rest) (acc, isotope_xs_found, capture_data)
        = Inr (acc, True, False)"
    by auto
next
  assume a: "(\<forall>l \<in> set before. \<not> str_in isotope_name l)
        \<and> str_in ''//'' line \<and> \<not> str_in isotope_name line
        \<and> (\<forall>l \<in> set between. \<not> str_in isotope_name l)
        \<and> str_in isotope_name name_line
        \<and> \<not> str_in ''#data...'' name_line \<and> \<not> str_in ''//'' name_line
        \<and> str_in ''#data...'' marker_line
        \<and> \<not> str_in ''#data...'' row \<and> \<not> str_in ''//'' row \<and> \<not> startswith row ''#''
        \<and> data_line row = Inr p
        \<and> str_in ''//'' end_line \<and> \<not> str_in ''#data...'' end_line"
  let ?block = "name_line # marker_line # row # end_line # rest"
  have "\<forall>l \<in> set (before @ line # between). \<not> str_in isotope_name l"
    using a by auto
  then have "scan_lines isotope_name ((before @ line # between) @ ?block) ([], False, False)
               = scan_lines isotope_name ?block ([], False, False)"
    by (rule scan_lines_searching)
  moreover have "scan_lines isotope_name ?block ([], False, False) = Inr ([p], True, False)"
    using a by simp
  ultimately show "scan_lines isotope_name
          (before @ line # between @ name_line # marker_line # row # end_line # rest)
          ([], False, False)
        = Inr ([p], True, False)"
    by simp
qed

text \<open>
  C9 at the comment line \<^verbatim>\<open># //\<close>.  Before the name \<^verbatim>\<open>A\<close> it is passed over:
  the rows behind it are read, and as the only line of a file it leaves the state as it
  was.  After the name it ends the scan although it starts with \<^verbatim>\<open>#\<close>, and the row
  behind it is not read.
\<close>

theorem sentinel_scope_witness:
  "scan_lines ''A'' [''# //\<newline>'', ''A\<newline>'', ''#data...\<newline>'', ''1.0 2.5\<newline>''] ([], False, False)
     = Inr ([(Fin 1000000, Fin (5 / 2))], True, True)
   \<and> scan_lines ''A'' [''# //\<newline>''] ([(Fin 1000000, Fin 2)], False, True)
     = Inr ([(Fin 1000000, Fin 2)], False, True)
   \<and> startswith ''# //\<newline>'' ''#''
   \<and> scan_lines ''A'' [''# //\<newline>'', ''3.0 4.0\<newline>''] ([(Fin 1000000, Fin 2)], True, True)
     = Inr ([(Fin 1000000, Fin 2)], True, False)
   \<and> scan_lines ''A''
       [''# header\<newline>'', ''# //\<newline>'', ''\<newline>'', ''A\<newline>'', ''#data...\<newline>'', ''1.0 2.5\<newline>'', ''# //\<newline>'',
        ''2.0 3.0\<newline>'']
       ([], False, False)
     = Inr ([(Fin 1000000, Fin (5 / 2))], True, False)"
proof -
  have a: "str_in ''//'' ''# //\<newline>'' \<and> \<not> str_in ''A'' ''# //\<newline>''"
    by simp
  have b: "str_in ''//'' ''# //\<newline>'' \<and> \<not> str_in ''#data...'' ''# //\<newline>''
             \<and> (True \<or> str_in ''A'' ''# //\<newline>'')"
    by simp
  have c: "startswith ''# //\<newline>'' ''#''"
    by simp
  have d: "(\<forall>l \<in> set [''# header\<newline>'']. \<not> str_in ''A'' l)
        \<and> str_in ''//'' ''# //\<newline>'' \<and> \<not> str_in ''A'' ''# //\<newline>''
        \<and> (\<forall>l \<in> set [''\<newline>'']. \<not> str_in ''A'' l)
        \<and> str_in ''A'' ''A\<newline>''
        \<and> \<not> str_in ''#data...'' ''A\<newline>'' \<and> \<not> str_in ''//'' ''A\<newline>''
        \<and> str_in ''#data...'' ''#data...\<newline>''
        \<and> \<not> str_in ''#data...'' ''1.0 2.5\<newline>'' \<and> \<not> str_in ''//'' ''1.0 2.5\<newline>''
        \<and> \<not> startswith ''1.0 2.5\<newline>'' ''#''
        \<and> data_line ''1.0 2.5\<newline>'' = Inr (Fin 1000000, Fin (5 / 2))
        \<and> str_in ''//'' ''# //\<newline>'' \<and> \<not> str_in ''#data...'' ''# //\<newline>''"
    by (simp add: data_line_1_0_2_5)
  from sentinel_scope [where line = "''# //\<newline>''" and isotope_name = "''A''"
      and rest = "[''A\<newline>'', ''#data...\<newline>'', ''1.0 2.5\<newline>'']" and acc = "[]"
      and capture_data = False] a
  have "scan_lines ''A'' (''# //\<newline>'' # [''A\<newline>'', ''#data...\<newline>'', ''1.0 2.5\<newline>''])
             ([], False, False)
           = scan_lines ''A'' [''A\<newline>'', ''#data...\<newline>'', ''1.0 2.5\<newline>''] ([], False, False)"
    by blast
  moreover have "scan_lines ''A'' [''A\<newline>'', ''#data...\<newline>'', ''1.0 2.5\<newline>''] ([], False, False)
           = Inr ([(Fin 1000000, Fin (5 / 2))], True, True)"
    by (simp add: data_line_1_0_2_5)
  ultimately have 1: "scan_lines ''A'' [''# //\<newline>'', ''A\<newline>'', ''#data...\<newline>'', ''1.0 2.5\<newline>'']
             ([], False, False)
           = Inr ([(Fin 1000000, Fin (5 / 2))], True, True)"
    by (rule trans)
  from sentinel_scope [where line = "''# //\<newline>''" and isotope_name = "''A''"
      and acc = "[(Fin 1000000, Fin 2)]" and capture_data = True] a
  have 2: "scan_lines ''A'' [''# //\<newline>''] ([(Fin 1000000, Fin 2)], False, True)
           = Inr ([(Fin 1000000, Fin 2)], False, True)"
    by blast
  from sentinel_scope [where line = "''# //\<newline>''" and isotope_name = "''A''"
      and rest = "[''3.0 4.0\<newline>'']" and acc = "[(Fin 1000000, Fin 2)]"
      and isotope_xs_found = True and capture_data = True] b
  have 3: "scan_lines ''A'' [''# //\<newline>'', ''3.0 4.0\<newline>''] ([(Fin 1000000, Fin 2)], True, True)
           = Inr ([(Fin 1000000, Fin 2)], True, False)"
    by blast
  from sentinel_scope [where line = "''# //\<newline>''" and isotope_name = "''A''"
      and before = "[''# header\<newline>'']" and between = "[''\<newline>'']" and name_line = "''A\<newline>''"
      and marker_line = "''#data...\<newline>''" and row = "''1.0 2.5\<newline>''"
      and p = "(Fin 1000000, Fin (5 / 2))" and end_line = "''# //\<newline>''"
      and rest = "[''2.0 3.0\<newline>'']"] d
  have "scan_lines ''A''
          ([''# header\<newline>''] @ ''# //\<newline>'' # [''\<newline>''] @ ''A\<newline>'' # ''#data...\<newline>'' # ''1.0 2.5\<newline>''
             # ''# //\<newline>'' # [''2.0 3.0\<newline>''])
          ([], False, False)
        = Inr ([(Fin 1000000, Fin (5 / 2))], True, False)"
    by blast
  then have 4: "scan_lines ''A''
       [''# header\<newline>'', ''# //\<newline>'', ''\<newline>'', ''A\<newline>'', ''#data...\<newline>'', ''1.0 2.5\<newline>'', ''# //\<newline>'',
        ''2.0 3.0\<newline>'']
       ([], False, False)
     = Inr ([(Fin 1000000, Fin (5 / 2))], True, False)"
    by (simp only: append_Cons append_Nil)
  from 1 2 c 3 4 show ?thesis by blast
qed

subsection \<open>Loading\<close>




text \<open>
  C10.  \<^verbatim>\<open>load_xs_data\<close> leaves the object as it was when \<^verbatim>\<open>parse_xs_file\<close>
  raises, whatever it raises: the assignment of line 124 does not take place.  When
  \<^verbatim>\<open>parse_xs_file\<close> returns the empty list, the assignment has taken place when line
  126 raises: the object then holds the empty list, and the series it held before is
  gone.
\<close>

theorem load_xs_data_atomicity:
  "(parse_xs_file fs (xs_file_location self) (name self) = Inl e \<longrightarrow>
      load_xs_data fs self = (Some e, self))
   \<and> (parse_xs_file fs (xs_file_location self) (name self) = Inr [] \<longrightarrow>
      load_xs_data fs self
        = (Some (ValueError (no_data_message (name self) (xs_file_location self))),
           self\<lparr>xs_data := []\<rparr>))"
  by (simp add: load_xs_data_def Let_def)

text \<open>
  C10 at an object that holds a series already.  Loading from a file without the
  name \<^verbatim>\<open>Z\<close> raises and keeps the series; loading from a file with a malformed data
  line raises and keeps it; loading from a file with the name \<^verbatim>\<open>A\<close> and no data
  row raises and leaves the empty list.
\<close>

theorem load_xs_data_atomicity_witness:
  "load_xs_data [''xs.txt'' \<mapsto> [''A\<newline>'']]
     \<lparr>name = ''Z'', atomic_mass = Fin 1, thickness = Fin 1, thickness_unit = ''cm'',
      abundance = Fin 1, xs_file_location = ''xs.txt'', density = Fin 1,
      density_unit = ''g/cm3'', xs_data = [(Fin 1000000, Fin 2)]\<rparr>
   = (Some (ValueError ''Cross-section data for Z not found in xs.txt''),
      \<lparr>name = ''Z'', atomic_mass = Fin 1, thickness = Fin 1, thickness_unit = ''cm'',
       abundance = Fin 1, xs_file_location = ''xs.txt'', density = Fin 1,
       density_unit = ''g/cm3'', xs_data = [(Fin 1000000, Fin 2)]\<rparr>)
   \<and> load_xs_data [''xs.txt'' \<mapsto> [''A\<newline>'', ''#data...\<newline>'', ''1.0\<newline>'']]
     \<lparr>name = ''A'', atomic_mass = Fin 1, thickness = Fin 1, thickness_unit = ''cm'',
      abundance = Fin 1, xs_file_location = ''xs.txt'', density = Fin 1,
      density_unit = ''g/cm3'', xs_data = [(Fin 1000000, Fin 2)]\<rparr>
   = (Some (UnpackValueError 1),
      \<lparr>name = ''A'', atomic_mass = Fin 1, thickness = Fin 1, thickness_unit = ''cm'',
       abundance = Fin 1, xs_file_location = ''xs.txt'', density = Fin 1,
       density_unit = ''g/cm3'', xs_data = [(Fin 1000000, Fin 2)]\<rparr>)
   \<and> load_xs_data [''xs.txt'' \<mapsto> [''A\<newline>'']]
     \<lparr>name = ''A'', atomic_mass = Fin 1, thickness = Fin 1, thickness_unit = ''cm'',
      abundance = Fin 1, xs_file_location = ''xs.txt'', density = Fin 1,
      density_unit = ''g/cm3'', xs_data = [(Fin 1000000, Fin 2)]\<rparr>
   = (Some (ValueError ''No data loaded for A from xs.txt''),
      \<lparr>name = ''A'', atomic_mass = Fin 1, thickness = Fin 1, thickness_unit = ''cm'',
       abundance = Fin 1, xs_file_location = ''xs.txt'', density = Fin 1,
       density_unit = ''g/cm3'', xs_data = []\<rparr>)"
proof -
  let ?z = "\<lparr>name = ''Z'', atomic_mass = Fin 1, thickness = Fin 1, thickness_unit = ''cm'',
      abundance = Fin 1, xs_file_location = ''xs.txt'', density = Fin 1,
      density_unit = ''g/cm3'', xs_data = [(Fin 1000000, Fin 2)]\<rparr>"
  let ?a = "\<lparr>name = ''A'', atomic_mass = Fin 1, thickness = Fin 1, thickness_unit = ''cm'',
      abundance = Fin 1, xs_file_location = ''xs.txt'', density = Fin 1,
      density_unit = ''g/cm3'', xs_data = [(Fin 1000000, Fin 2)]\<rparr>"
  have p1: "parse_xs_file [''xs.txt'' \<mapsto> [''A\<newline>'']] (xs_file_location ?z) (name ?z)
              = Inl (ValueError ''Cross-section data for Z not found in xs.txt'')"
    by (simp add: parse_xs_file_def not_found_message_def)
  have p2: "parse_xs_file [''xs.txt'' \<mapsto> [''A\<newline>'', ''#data...\<newline>'', ''1.0\<newline>'']]
              (xs_file_location ?a) (name ?a) = Inl (UnpackValueError 1)"
    by (simp add: parse_xs_file_def data_line_def str_split_def is_space_def)
  have p3: "parse_xs_file [''xs.txt'' \<mapsto> [''A\<newline>'']] (xs_file_location ?a) (name ?a) = Inr []"
    by (simp add: parse_xs_file_def)
  from load_xs_data_atomicity
         [of "[''xs.txt'' \<mapsto> [''A\<newline>'']]" ?z
             "ValueError ''Cross-section data for Z not found in xs.txt''"] p1
  have 1: "load_xs_data [''xs.txt'' \<mapsto> [''A\<newline>'']] ?z
             = (Some (ValueError ''Cross-section data for Z not found in xs.txt''), ?z)"
    by blast
  from load_xs_data_atomicity
         [of "[''xs.txt'' \<mapsto> [''A\<newline>'', ''#data...\<newline>'', ''1.0\<newline>'']]" ?a "UnpackValueError 1"] p2
  have 2: "load_xs_data [''xs.txt'' \<mapsto> [''A\<newline>'', ''#data...\<newline>'', ''1.0\<newline>'']] ?a
             = (Some (UnpackValueError 1), ?a)"
    by blast
  from load_xs_data_atomicity [of "[''xs.txt'' \<mapsto> [''A\<newline>'']]" ?a] p3
  have "load_xs_data [''xs.txt'' \<mapsto> [''A\<newline>'']] ?a
          = (Some (ValueError (no_data_message (name ?a) (xs_file_location ?a))),
             ?a\<lparr>xs_data := []\<rparr>)"
    by blast
  then have 3: "load_xs_data [''xs.txt'' \<mapsto> [''A\<newline>'']] ?a
          = (Some (ValueError ''No data loaded for A from xs.txt''),
             \<lparr>name = ''A'', atomic_mass = Fin 1, thickness = Fin 1, thickness_unit = ''cm'',
              abundance = Fin 1, xs_file_location = ''xs.txt'', density = Fin 1,
              density_unit = ''g/cm3'', xs_data = []\<rparr>)"
    by (simp add: no_data_message_def)
  from 1 2 3 show ?thesis by blast
qed

subsection \<open>The transmission curve\<close>

text \<open>The loop appends one pair for each energy of the grid, in the order of the grid.\<close>

lemma transmission_loop_map:
  "transmission_loop f a energy_grid transmission
     = transmission @ map (\<lambda>energy. (energy, fexp (fmul (fneg (f energy)) a))) energy_grid"
  by (induction energy_grid arbitrary: transmission) (simp_all add: Let_def)

lemma interp1d_total: "d \<noteq> [] \<Longrightarrow> \<exists>f. interp1d (map fst d) (map snd d) = Inr f"
  by (cases d) (simp_all add: interp1d_def Let_def)

lemma areal_density_of_total:
  "am \<noteq> Fin 0 \<Longrightarrow>
   areal_density_of th de am = Inr (fdiv (fdiv (fmul (fmul th de) AVOGADRO) am) CM2_TO_BARN)"
  by (simp add: areal_density_of_def py_truediv_def CM2_TO_BARN_def)

lemma create_transmission_unfold:
  assumes "thickness_cm isotope = Inr th"
    and "density_unit isotope = ''g/cm3''"
    and "atomic_mass isotope \<noteq> Fin 0"
    and "interp1d (map fst (xs_data isotope)) (map snd (xs_data isotope)) = Inr f"
    and "xs_data isotope \<noteq> []"
  shows "create_transmission energy_grid isotope
     = Inr (map (\<lambda>energy. (energy, fexp (fmul (fneg (f energy))
              (fdiv (fdiv (fmul (fmul th (density isotope)) AVOGADRO) (atomic_mass isotope))
                 CM2_TO_BARN)))) energy_grid)"
  using assms
  by (simp add: create_transmission_def areal_density_of_total unzip_xs_def transmission_loop_map)

lemmas create_transmission_defs =
  create_transmission_def thickness_cm_def areal_density_of_def py_truediv_def
  unzip_xs_def interp1d_def argsort_pairs_def call_linear_def searchsorted_def fsub_def
  inf_of_sign_def AVOGADRO_def CM2_TO_BARN_def

text \<open>
  C1, as stated, fails: with valid units and a loaded table, an atomic mass of
  \<open>0.0\<close> (the default of the constructor) makes line 43 raise
  \<^verbatim>\<open>ZeroDivisionError\<close>, for the empty grid too.
\<close>

theorem zero_mass_raises:
  "create_transmission []
     \<lparr>name = ''A'', atomic_mass = Fin 0, thickness = Fin 1, thickness_unit = ''cm'',
      abundance = Fin 1, xs_file_location = ''xs.txt'', density = Fin 1,
      density_unit = ''g/cm3'', xs_data = [(Fin 1000000, Fin 1), (Fin 2000000, Fin 2)]\<rparr>
   = Inl ZeroDivisionError"
  by (simp add: create_transmission_defs)

text \<open>
  C1, amended.  For every energy grid and every isotope with a thickness unit
  \<^verbatim>\<open>cm\<close> or \<^verbatim>\<open>mm\<close>, the density unit \<^verbatim>\<open>g/cm3\<close>, a non-empty table and an atomic
  mass other than zero, \<^verbatim>\<open>create_transmission\<close> returns a curve with one pair for each
  point of the grid, whose energies are the grid in the same order (so the curve of the
  empty grid is empty).
\<close>

theorem create_transmission_grid:
  assumes "thickness_unit isotope = ''cm'' \<or> thickness_unit isotope = ''mm''"
    and "density_unit isotope = ''g/cm3''"
    and "xs_data isotope \<noteq> []"
    and "atomic_mass isotope \<noteq> Fin 0"
  shows "\<exists>curve. create_transmission energy_grid isotope = Inr curve
           \<and> length curve = length energy_grid \<and> map fst curve = energy_grid"
proof -
  obtain th where th: "thickness_cm isotope = Inr th"
    using assms(1) by (auto simp: thickness_cm_def)
  obtain f where f: "interp1d (map fst (xs_data isotope)) (map snd (xs_data isotope)) = Inr f"
    using interp1d_total [OF assms(3)] by blast
  show ?thesis
    unfolding create_transmission_unfold [OF th assms(2) assms(4) f assms(3)]
    by (simp add: comp_def)
qed

text \<open>
  C1, amended, at an isotope in millimetres with a table of two points: a grid of
  three energies (one of them not a number) gives three pairs, the empty grid gives the
  empty curve.
\<close>

theorem create_transmission_grid_witness:
  "(\<exists>curve. create_transmission [Fin 5, NaN, Fin 3000000]
       \<lparr>name = ''A'', atomic_mass = Fin 1, thickness = Fin 1, thickness_unit = ''mm'',
        abundance = Fin 1, xs_file_location = ''xs.txt'', density = Fin 1,
        density_unit = ''g/cm3'', xs_data = [(Fin 1000000, Fin 1), (Fin 2000000, Fin 2)]\<rparr>
       = Inr curve
      \<and> length curve = length [Fin 5, NaN, Fin 3000000]
      \<and> map fst curve = [Fin 5, NaN, Fin 3000000])
   \<and> create_transmission []
       \<lparr>name = ''A'', atomic_mass = Fin 1, thickness = Fin 1, thickness_unit = ''mm'',
        abundance = Fin 1, xs_file_location = ''xs.txt'', density = Fin 1,
        density_unit = ''g/cm3'', xs_data = [(Fin 1000000, Fin 1), (Fin 2000000, Fin 2)]\<rparr>
       = Inr []"
proof -
  let ?iso = "\<lparr>name = ''A'', atomic_mass = Fin 1, thickness = Fin 1, thickness_unit = ''mm'',
        abundance = Fin 1, xs_file_location = ''xs.txt'', density = Fin 1,
        density_unit = ''g/cm3'', xs_data = [(Fin 1000000, Fin 1), (Fin 2000000, Fin 2)]\<rparr>"
  have u: "thickness_unit ?iso = ''cm'' \<or> thickness_unit ?iso = ''mm''" by simp
  have d: "density_unit ?iso = ''g/cm3''" by simp
  have x: "xs_data ?iso \<noteq> []" by simp
  have m: "atomic_mass ?iso \<noteq> Fin 0" by simp
  have 1: "\<exists>curve. create_transmission [Fin 5, NaN, Fin 3000000] ?iso = Inr curve
      \<and> length curve = length [Fin 5, NaN, Fin 3000000]
      \<and> map fst curve = [Fin 5, NaN, Fin 3000000]"
    using u d x m by (rule create_transmission_grid)
  obtain curve where "create_transmission [] ?iso = Inr curve" and "map fst curve = []"
    using create_transmission_grid [OF u d x m, of "[]"] by blast
  then have 2: "create_transmission [] ?iso = Inr []" by simp
  from 1 2 show ?thesis by blast
qed

text \<open>
  C4.  A thickness unit other than \<^verbatim>\<open>cm\<close> and \<^verbatim>\<open>mm\<close> raises the
  \<^verbatim>\<open>ValueError\<close> of line 39, whatever the other fields and the grid are.  A density
  unit other than \<^verbatim>\<open>g/cm3\<close> raises as well, whatever the other fields are: the
  \<^verbatim>\<open>ValueError\<close> of line 41 when the thickness unit is accepted, the one of line 39
  otherwise (the thickness unit is checked first).  These two exceptions are what the
  specification calls a UnitError.  With the unit \<^verbatim>\<open>mm\<close> the thickness that enters
  the areal density of every point of the curve is the thickness divided by ten.
\<close>

theorem create_transmission_units:
  "(thickness_unit isotope \<noteq> ''cm'' \<and> thickness_unit isotope \<noteq> ''mm'' \<longrightarrow>
      create_transmission energy_grid isotope = Inl (ValueError thickness_message))
   \<and> (density_unit isotope \<noteq> ''g/cm3'' \<longrightarrow>
      create_transmission energy_grid isotope
        = Inl (ValueError (if thickness_unit isotope = ''cm'' \<or> thickness_unit isotope = ''mm''
                           then density_message else thickness_message)))
   \<and> (thickness_unit isotope = ''mm'' \<and> density_unit isotope = ''g/cm3''
        \<and> atomic_mass isotope \<noteq> Fin 0
        \<and> interp1d (map fst (xs_data isotope)) (map snd (xs_data isotope)) = Inr f
        \<and> xs_data isotope \<noteq> [] \<longrightarrow>
      create_transmission energy_grid isotope
        = Inr (map (\<lambda>energy. (energy, fexp (fmul (fneg (f energy))
                 (fdiv (fdiv (fmul (fmul (fdiv (thickness isotope) (Fin 10)) (density isotope))
                    AVOGADRO) (atomic_mass isotope)) CM2_TO_BARN)))) energy_grid))"
proof (intro conjI impI)
  assume "thickness_unit isotope \<noteq> ''cm'' \<and> thickness_unit isotope \<noteq> ''mm''"
  then show "create_transmission energy_grid isotope = Inl (ValueError thickness_message)"
    by (simp add: create_transmission_def thickness_cm_def)
next
  assume "density_unit isotope \<noteq> ''g/cm3''"
  then show "create_transmission energy_grid isotope
        = Inl (ValueError (if thickness_unit isotope = ''cm'' \<or> thickness_unit isotope = ''mm''
                           then density_message else thickness_message))"
    by (simp add: create_transmission_def thickness_cm_def)
next
  assume a: "thickness_unit isotope = ''mm'' \<and> density_unit isotope = ''g/cm3''
        \<and> atomic_mass isotope \<noteq> Fin 0
        \<and> interp1d (map fst (xs_data isotope)) (map snd (xs_data isotope)) = Inr f
        \<and> xs_data isotope \<noteq> []"
  then have th: "thickness_cm isotope = Inr (fdiv (thickness isotope) (Fin 10))"
    by (simp add: thickness_cm_def)
  show "create_transmission energy_grid isotope
        = Inr (map (\<lambda>energy. (energy, fexp (fmul (fneg (f energy))
                 (fdiv (fdiv (fmul (fmul (fdiv (thickness isotope) (Fin 10)) (density isotope))
                    AVOGADRO) (atomic_mass isotope)) CM2_TO_BARN)))) energy_grid)"
    using a by (intro create_transmission_unfold [OF th]) simp_all
qed

text \<open>
  C4 at three isotopes: the one the constructor builds from its defaults (thickness
  unit \<^verbatim>\<open>atoms/cm2\<close>), one with the density unit \<^verbatim>\<open>kg/m3\<close>, and one of 5 mm with a
  constant cross-section of 2 barn, whose areal density is that of 0.5 cm.
\<close>

theorem create_transmission_units_witness:
  "thickness_unit Isotope_default = ''atoms/cm2''
   \<and> create_transmission [Fin 1000000] Isotope_default = Inl (ValueError thickness_message)
   \<and> create_transmission [Fin 1000000]
        (Isotope_init ''A'' (Fin 1) (Fin 1) ''cm'' (Fin 1) ''xs.txt'' (Fin 1) ''kg/m3'')
      = Inl (ValueError density_message)
   \<and> create_transmission [Fin 1500000]
        \<lparr>name = ''A'', atomic_mass = Fin 1, thickness = Fin 5, thickness_unit = ''mm'',
         abundance = Fin 1, xs_file_location = ''xs.txt'', density = Fin 1,
         density_unit = ''g/cm3'', xs_data = [(Fin 1000000, Fin 2), (Fin 2000000, Fin 2)]\<rparr>
      = Inr [(Fin 1500000, Fin (exp (- (2 * (0.5 * 0.602214076)))))]"
proof -
  let ?kg = "Isotope_init ''A'' (Fin 1) (Fin 1) ''cm'' (Fin 1) ''xs.txt'' (Fin 1) ''kg/m3''"
  let ?mm = "\<lparr>name = ''A'', atomic_mass = Fin 1, thickness = Fin 5, thickness_unit = ''mm'',
         abundance = Fin 1, xs_file_location = ''xs.txt'', density = Fin 1,
         density_unit = ''g/cm3'', xs_data = [(Fin 1000000, Fin 2), (Fin 2000000, Fin 2)]\<rparr>"
  let ?f = "call_linear [Fin 1000000, Fin 2000000] [Fin 2, Fin 2]"
  have u: "thickness_unit Isotope_default = ''atoms/cm2''"
    by (simp add: Isotope_default_def Isotope_init_def)
  then have a: "thickness_unit Isotope_default \<noteq> ''cm'' \<and> thickness_unit Isotope_default \<noteq> ''mm''"
    by simp
  from create_transmission_units [where isotope = Isotope_default and energy_grid = "[Fin 1000000]"] a
  have 1: "create_transmission [Fin 1000000] Isotope_default = Inl (ValueError thickness_message)"
    by blast
  have b: "density_unit ?kg \<noteq> ''g/cm3''"
    by (simp add: Isotope_init_def)
  have b': "thickness_unit ?kg = ''cm''"
    by (simp add: Isotope_init_def)
  from create_transmission_units [where isotope = ?kg and energy_grid = "[Fin 1000000]"] b
  have "create_transmission [Fin 1000000] ?kg
          = Inl (ValueError (if thickness_unit ?kg = ''cm'' \<or> thickness_unit ?kg = ''mm''
                             then density_message else thickness_message))"
    by blast
  then have 2: "create_transmission [Fin 1000000] ?kg = Inl (ValueError density_message)"
    using b' by simp
  have c: "thickness_unit ?mm = ''mm'' \<and> density_unit ?mm = ''g/cm3''
        \<and> atomic_mass ?mm \<noteq> Fin 0
        \<and> interp1d (map fst (xs_data ?mm)) (map snd (xs_data ?mm)) = Inr ?f
        \<and> xs_data ?mm \<noteq> []"
    by (simp add: interp1d_def argsort_pairs_def)
  from create_transmission_units [where isotope = ?mm and f = ?f and energy_grid = "[Fin 1500000]"] c
  have "create_transmission [Fin 1500000] ?mm
        = Inr (map (\<lambda>energy. (energy, fexp (fmul (fneg (?f energy))
                 (fdiv (fdiv (fmul (fmul (fdiv (thickness ?mm) (Fin 10)) (density ?mm))
                    AVOGADRO) (atomic_mass ?mm)) CM2_TO_BARN)))) [Fin 1500000])"
    by blast
  then have 3: "create_transmission [Fin 1500000] ?mm
        = Inr [(Fin 1500000, Fin (exp (- (2 * (0.5 * 0.602214076)))))]"
    by (simp add: call_linear_def searchsorted_def fsub_def AVOGADRO_def CM2_TO_BARN_def)
  from u 1 2 3 show ?thesis by blast
qed

text \<open>
  C8.  For every thickness \<open>t\<close>, every grid and every isotope, the call with the
  thickness \<open>t\<close> in \<^verbatim>\<open>mm\<close> and the call with the thickness \<open>t / 10\<close> in
  \<^verbatim>\<open>cm\<close>, all other fields being the same, have the same outcome: the same curve, or
  the same exception.
\<close>

theorem mm_cm_same_curve:
  "create_transmission energy_grid (isotope\<lparr>thickness := t, thickness_unit := ''mm''\<rparr>)
     = create_transmission energy_grid
         (isotope\<lparr>thickness := fdiv t (Fin 10), thickness_unit := ''cm''\<rparr>)"
  by (simp add: create_transmission_def thickness_cm_def cong: sum.case_cong)

subsection \<open>The scenario of one tabulated point\<close>

text \<open>
  The value of the exponential, from its Maclaurin series up to the seventh power and
  the bound of the remainder.
\<close>

lemma exp_neg_value:
  "0.54755 < exp (- 0.602214076 :: real) \<and> exp (- 0.602214076 :: real) < 0.54765"
proof -
  define x :: real where "x = - 0.602214076"
  obtain t where t: "\<bar>t\<bar> \<le> \<bar>x\<bar>"
    and e: "exp x = (\<Sum>m<8. x ^ m / fact m) + exp t / fact 8 * x ^ 8"
    using Maclaurin_exp_le [of x 8] by blast
  have "t \<le> 1" using t by (simp add: x_def)
  then have "exp t \<le> exp 1" by simp
  then have up: "exp t \<le> 3" using exp_le by linarith
  have lo: "0 < exp t" by simp
  have s: "(\<Sum>m<8. x ^ m / fact m)
             = 1 + x + x^2 / 2 + x^3 / 6 + x^4 / 24 + x^5 / 120 + x^6 / 720 + x^7 / 5040"
    by (simp add: lessThan_nat_numeral fact_numeral numeral_eq_Suc)
  have p: "0 \<le> x ^ 8 / fact 8" by simp
  have r1: "exp t / fact 8 * x ^ 8 = exp t * (x ^ 8 / fact 8)" by simp
  have r2: "0 \<le> exp t * (x ^ 8 / fact 8)" using lo p by simp
  have r3: "exp t * (x ^ 8 / fact 8) \<le> 3 * (x ^ 8 / fact 8)"
    using up p by (rule mult_right_mono)
  have v1: "0.54755 < 1 + x + x^2 / 2 + x^3 / 6 + x^4 / 24 + x^5 / 120 + x^6 / 720 + x^7 / 5040"
    by (simp add: x_def power_divide)
  have v2: "1 + x + x^2 / 2 + x^3 / 6 + x^4 / 24 + x^5 / 120 + x^6 / 720 + x^7 / 5040
              + 3 * (x ^ 8 / fact 8) < 0.54765"
    by (simp add: x_def fact_numeral power_divide)
  show ?thesis unfolding x_def [symmetric] using e s r1 r2 r3 v1 v2 by linarith
qed

text \<open>
  With a second tabulated point at a higher energy, the first point is the lower end of
  the only segment: the interpolant at its energy is the slope times zero plus its
  cross-section, that is its cross-section.
\<close>

lemma interp_at_lower_of_two:
  assumes "1000000 < e2"
    and "interp1d [Fin 1000000, Fin e2] [Fin 1, Fin x2] = Inr f"
  shows "f (Fin 1000000) = Fin 1"
proof -
  have "f = call_linear [Fin 1000000, Fin e2] [Fin 1, Fin x2]"
    using assms by (simp add: interp1d_def argsort_pairs_def)
  then have "f (Fin 1000000) = fadd (fmul (Fin ((x2 - 1) / (e2 - 1000000))) (Fin 0)) (Fin 1)"
    using assms(1) by (simp add: call_linear_def searchsorted_def fsub_def)
  then show ?thesis by simp
qed

text \<open>
  C2, as stated, fails: with the single tabulated point \<open>(1e6, 1.0)\<close> the interpolant has
  no segment, its slope is \<open>0 / 0\<close>, and the transmission returned at \<open>1e6\<close> is
  not a number.
\<close>

theorem scenario_single_point_nan:
  "create_transmission [Fin 1000000]
     \<lparr>name = ''A'', atomic_mass = Fin 1, thickness = Fin 1, thickness_unit = ''cm'',
      abundance = Fin 1, xs_file_location = ''xs.txt'', density = Fin 1,
      density_unit = ''g/cm3'', xs_data = [(Fin 1000000, Fin 1)]\<rparr>
   = Inr [(Fin 1000000, NaN)]"
  by (simp add: create_transmission_defs)

text \<open>
  C2, amended.  For an isotope with thickness 1.0 cm, density 1.0 g/cm3, atomic mass
  1.0 and a table of the point \<open>(1e6, 1.0)\<close> followed by a second point at an energy of
  at least 1000001 eV (with any finite cross-section), the areal density is 0.602214076
  and the transmission returned at \<open>1e6\<close> is \<open>exp (- 0.602214076)\<close>, which is 0.5476
  to four places.

  The second point is kept above the first by at least 1 eV because there the
  interpolation at \<open>1e6\<close> does not depend on the rounding that the model leaves out:
  the difference of the energies is at least 1, so the slope is a finite float, and
  \<^verbatim>\<open>slope * 0.0 + 1.0\<close> is 1.0 exactly.  For a second point below \<open>1e6\<close> the
  value at \<open>1e6\<close> is \<^verbatim>\<open>slope * (1e6 - x_lo) + y_lo\<close> with a large cancellation
  in floating point, about which the exact arithmetic of the model says nothing.
\<close>

theorem scenario_two_points:
  assumes "1000001 \<le> e2"
  shows "areal_density_of (Fin 1) (Fin 1) (Fin 1) = Inr (Fin 0.602214076)
    \<and> create_transmission [Fin 1000000]
        \<lparr>name = nm, atomic_mass = Fin 1, thickness = Fin 1, thickness_unit = ''cm'',
         abundance = ab, xs_file_location = loc, density = Fin 1, density_unit = ''g/cm3'',
         xs_data = [(Fin 1000000, Fin 1), (Fin e2, Fin x2)]\<rparr>
      = Inr [(Fin 1000000, Fin (exp (- 0.602214076)))]
    \<and> 0.54755 < exp (- 0.602214076 :: real) \<and> exp (- 0.602214076 :: real) < 0.54765"
proof -
  let ?iso = "\<lparr>name = nm, atomic_mass = Fin 1, thickness = Fin 1, thickness_unit = ''cm'',
         abundance = ab, xs_file_location = loc, density = Fin 1, density_unit = ''g/cm3'',
         xs_data = [(Fin 1000000, Fin 1), (Fin e2, Fin x2)]\<rparr>"
  have a: "areal_density_of (Fin 1) (Fin 1) (Fin 1) = Inr (Fin 0.602214076)"
    by (simp add: areal_density_of_def py_truediv_def AVOGADRO_def CM2_TO_BARN_def)
  obtain f where f: "interp1d [Fin 1000000, Fin e2] [Fin 1, Fin x2] = Inr f"
    by (simp add: interp1d_def Let_def)
  have "1000000 < e2" using assms by simp
  then have v: "f (Fin 1000000) = Fin 1"
    using f by (rule interp_at_lower_of_two)
  have "create_transmission [Fin 1000000] ?iso = Inr [(Fin 1000000, Fin (exp (- 0.602214076)))]"
    by (simp add: create_transmission_def thickness_cm_def a unzip_xs_def f v)
  then show ?thesis using a exp_neg_value by simp
qed

text \<open>C2, amended, with the second point \<open>(2e6, 2.0)\<close>.\<close>

theorem scenario_two_points_witness:
  "create_transmission [Fin 1000000]
     \<lparr>name = ''A'', atomic_mass = Fin 1, thickness = Fin 1, thickness_unit = ''cm'',
      abundance = Fin 1, xs_file_location = ''xs.txt'', density = Fin 1,
      density_unit = ''g/cm3'', xs_data = [(Fin 1000000, Fin 1), (Fin 2000000, Fin 2)]\<rparr>
   = Inr [(Fin 1000000, Fin (exp (- 0.602214076)))]"
proof -
  have h: "(1000001 :: real) \<le> 2000000" by simp
  from scenario_two_points [OF h, of "''A''" "Fin 1" "''xs.txt''" 2] show ?thesis
    by blast
qed

subsection \<open>The messages of the unit errors\<close>

text \<open>
  C7.  The two strings of lines 39 and 41 are plain literals, not formatted: the
  message of the exception is the text with the braces, for every isotope.  For the
  isotope \<^verbatim>\<open>U-238\<close> with the thickness unit \<^verbatim>\<open>atoms/cm2\<close>, and with the density
  unit \<^verbatim>\<open>kg/m3\<close>, the message contains neither the unit nor the name.
\<close>

theorem unit_error_messages:
  "create_transmission []
      (Isotope_init ''U-238'' (Fin 238) (Fin 1) ''atoms/cm2'' (Fin 1) ''xs.txt'' (Fin 19) ''g/cm3'')
     = Inl (ValueError ''Unsupported thickness unit: {thickness_unit} for {isotope_name}'')
   \<and> \<not> str_in ''atoms/cm2'' ''Unsupported thickness unit: {thickness_unit} for {isotope_name}''
   \<and> \<not> str_in ''U-238'' ''Unsupported thickness unit: {thickness_unit} for {isotope_name}''
   \<and> create_transmission []
      (Isotope_init ''U-238'' (Fin 238) (Fin 1) ''cm'' (Fin 1) ''xs.txt'' (Fin 19) ''kg/m3'')
     = Inl (ValueError ''Unsupported density unit:{density_unit} for {isotope_name}'')
   \<and> \<not> str_in ''kg/m3'' ''Unsupported density unit:{density_unit} for {isotope_name}''
   \<and> \<not> str_in ''U-238'' ''Unsupported density unit:{density_unit} for {isotope_name}''"
  by (simp add: create_transmission_def thickness_cm_def Isotope_init_def thickness_message_def
      density_message_def)

end
